theory Spec2Isabelle
  imports Main "HOL-Library.Product_Lexorder"
begin

unbundle bit_operations_syntax

section \<open>Data model\<close>

text \<open>
  \<^verbatim>\<open>yubikit/support.py\<close> works on the types of \<^verbatim>\<open>yubikit.core\<close> and
  \<^verbatim>\<open>yubikit.management\<close>. A \<^verbatim>\<open>Version\<close> is a named tuple of three Python integers
  that the code compares with plain tuples such as \<^verbatim>\<open>(4, 4, 0)\<close>; Python compares
  tuples lexicographically, which is the order of \<^verbatim>\<open>Product_Lexorder\<close> on
  \<open>int \<times> int \<times> int\<close>.
\<close>

type_synonym Version = "int \<times> int \<times> int"

datatype TRANSPORT = USB | NFC

datatype YUBIKEY = YKS | NEO | SKY | YKP | YK4

datatype FORM_FACTOR =
    UNKNOWN
  | USB_A_KEYCHAIN
  | USB_A_NANO
  | USB_C_KEYCHAIN
  | USB_C_NANO
  | USB_C_LIGHTNING
  | USB_A_BIO
  | USB_C_BIO

text \<open>
  \<^verbatim>\<open>CAPABILITY\<close> and \<^verbatim>\<open>USB_INTERFACE\<close> are \<^verbatim>\<open>IntFlag\<close> enumerations: Python
  integers used as bitsets, with \<^verbatim>\<open>|\<close>, \<^verbatim>\<open>&\<close> and \<^verbatim>\<open>~\<close> acting on the
  (unbounded, two's complement) integer value and \<^verbatim>\<open>==\<close> comparing the values.

  The complement is where Python versions differ. Up to Python 3.10, \<^verbatim>\<open>~\<close> on an
  \<^verbatim>\<open>IntFlag\<close> is the complement of the integer, as modelled here. From Python 3.11
  on it is the complement within the bits of the declared flags (the ten bits up to
  FIDO2, so that \<^verbatim>\<open>~CAPABILITY.OTP\<close> is 1022). The code uses \<^verbatim>\<open>~\<close> only to mask a
  set, \<^verbatim>\<open>x & ~m\<close>, and there the two readings agree for every set \<open>x\<close> of declared
  bits, that is below 1024 (lemma \<open>and_not_within_flag_bits\<close>); they differ only for a
  set with a bit from 1024 on, which the later Python drops and this model keeps.
\<close>

type_synonym CAPABILITY = int
type_synonym USB_INTERFACE = int

text \<open>
  Modelled from the spec: the members of \<^verbatim>\<open>CAPABILITY\<close> and \<^verbatim>\<open>USB_INTERFACE\<close> are
  declared in \<^verbatim>\<open>yubikit/management.py\<close>, which is not among the source files. The spec
  (section 3) describes them as named flags of a bitset, one bit each, and counts the
  CCID-interface bit among the capability bits. The spec gives no numbers; the bits
  here are those of the YubiKey capability mask (OTP 01, U2F 02, CCID 04, OpenPGP 08,
  PIV 10, OATH 20, FIDO2 200 in hexadecimal), whose six low bits are the mask
  \<^verbatim>\<open>0x3f\<close> of \<^verbatim>\<open>ykman/driver_ccid.py\<close>.
\<close>

definition CAPABILITY_OTP :: CAPABILITY where "CAPABILITY_OTP = 1"
definition CAPABILITY_U2F :: CAPABILITY where "CAPABILITY_U2F = 2"
definition CAPABILITY_OPENPGP :: CAPABILITY where "CAPABILITY_OPENPGP = 8"
definition CAPABILITY_PIV :: CAPABILITY where "CAPABILITY_PIV = 16"
definition CAPABILITY_OATH :: CAPABILITY where "CAPABILITY_OATH = 32"
definition CAPABILITY_FIDO2 :: CAPABILITY where "CAPABILITY_FIDO2 = 512"

definition USB_INTERFACE_OTP :: USB_INTERFACE where "USB_INTERFACE_OTP = 1"
definition USB_INTERFACE_FIDO :: USB_INTERFACE where "USB_INTERFACE_FIDO = 2"
definition USB_INTERFACE_CCID :: USB_INTERFACE where "USB_INTERFACE_CCID = 4"

text \<open>\<^verbatim>\<open>flag in flags\<close> on an \<^verbatim>\<open>IntFlag\<close>: every bit of \<open>flag\<close> is set in \<open>flags\<close>.\<close>

definition flag_in :: "int \<Rightarrow> int \<Rightarrow> bool" where
  "flag_in flag flags = (flag AND flags = flag)"

text \<open>
  The subset relation on capability bitsets (\<open>a \<subseteq> b\<close> in the spec): no bit of \<open>a\<close>
  lies outside \<open>b\<close>.
\<close>

definition cap_subset :: "CAPABILITY \<Rightarrow> CAPABILITY \<Rightarrow> bool" where
  "cap_subset a b = (a AND NOT b = 0)"

text \<open>
  \<^verbatim>\<open>DeviceConfig\<close> and \<^verbatim>\<open>DeviceInfo\<close> are data classes of \<^verbatim>\<open>yubikit.management\<close>;
  their fields are those the constructor calls and attribute accesses of
  \<^verbatim>\<open>support.py\<close> name. The two capability dictionaries are maps from transports.
  The constructor calls of \<^verbatim>\<open>support.py\<close> pass neither \<^verbatim>\<open>is_fips\<close> nor \<^verbatim>\<open>is_sky\<close>;
  the records they build have both flags false, the defaults of the data class.
\<close>

record DeviceConfig =
  enabled_capabilities :: "TRANSPORT \<rightharpoonup> CAPABILITY"
  auto_eject_timeout :: int
  challenge_response_timeout :: int
  device_flags :: int

record DeviceInfo =
  config :: DeviceConfig
  serial :: "int option"
  version :: Version
  form_factor :: FORM_FACTOR
  supported_capabilities :: "TRANSPORT \<rightharpoonup> CAPABILITY"
  is_locked :: bool
  is_fips :: bool
  is_sky :: bool

text \<open>
  Modelled from the spec: \<^verbatim>\<open>DeviceInfo.has_transport\<close> is a method of the absent
  \<^verbatim>\<open>yubikit/management.py\<close>; a transport is supported when the supported-capability
  map has an entry for it (spec 4.5, "is a supported transport").
\<close>

definition has_transport :: "DeviceInfo \<Rightarrow> TRANSPORT \<Rightarrow> bool" where
  "has_transport info t = (supported_capabilities info t \<noteq> None)"

section \<open>Version predicates\<close>

definition is_fips_version :: "Version \<Rightarrow> bool" where
  "is_fips_version v = ((4, 4, 0) \<le> v \<and> v < (4, 5, 0))"

definition PREVIEW_RANGES :: "(Version \<times> Version) list" where
  "PREVIEW_RANGES =
     [((5, 0, 0), (5, 1, 0)),
      ((5, 2, 0), (5, 2, 3)),
      ((5, 5, 0), (5, 5, 2))]"

text \<open>The \<^verbatim>\<open>for\<close> loop of \<^verbatim>\<open>_is_preview\<close>: the first range that holds the version returns.\<close>

fun is_preview_loop :: "(Version \<times> Version) list \<Rightarrow> Version \<Rightarrow> bool" where
  "is_preview_loop [] v = False"
| "is_preview_loop ((start, end') # rest) v =
     (if start \<le> v \<and> v < end' then True else is_preview_loop rest v)"

definition is_preview :: "Version \<Rightarrow> bool" where
  "is_preview v = is_preview_loop PREVIEW_RANGES v"

section \<open>Normalization in \<^verbatim>\<open>read_info\<close>\<close>

text \<open>
  The part of \<^verbatim>\<open>read_info\<close> after the resolver has returned (from "Set usb_enabled if
  missing" to the \<^verbatim>\<open>return\<close>), one definition per block of the source, in the
  source's order. The code mutates \<open>info\<close>; the model returns the updated record.
\<close>

definition set_usb_enabled :: "USB_INTERFACE \<Rightarrow> DeviceInfo \<Rightarrow> DeviceInfo" where
  "set_usb_enabled interfaces info =
     (if has_transport info USB \<and> enabled_capabilities (config info) USB = None then
        (case supported_capabilities info USB of
           None \<Rightarrow> info
         | Some usb_enabled \<Rightarrow>
            let info1 =
                  (if usb_enabled = (CAPABILITY_OTP OR CAPABILITY_U2F OR USB_INTERFACE_CCID)
                   then info\<lparr>supported_capabilities := [USB \<mapsto> CAPABILITY_OTP OR CAPABILITY_U2F]\<rparr>
                   else info);
                e1 = (if \<not> flag_in USB_INTERFACE_OTP interfaces
                      then usb_enabled AND NOT CAPABILITY_OTP else usb_enabled);
                e2 = (if \<not> flag_in USB_INTERFACE_FIDO interfaces
                      then e1 AND NOT (CAPABILITY_U2F OR CAPABILITY_FIDO2) else e1);
                e3 = (if \<not> flag_in USB_INTERFACE_CCID interfaces
                      then e2 AND NOT (USB_INTERFACE_CCID OR CAPABILITY_OATH
                                        OR CAPABILITY_OPENPGP OR CAPABILITY_PIV)
                      else e2)
            in info1\<lparr>config := (config info1)
                 \<lparr>enabled_capabilities := (enabled_capabilities (config info1))(USB \<mapsto> e3)\<rparr>\<rparr>)
      else info)"

definition set_fips :: "DeviceInfo \<Rightarrow> DeviceInfo" where
  "set_fips info = (if is_fips_version (version info) then info\<lparr>is_fips := True\<rparr> else info)"

definition set_nfc_enabled :: "DeviceInfo \<Rightarrow> DeviceInfo" where
  "set_nfc_enabled info =
     (if has_transport info NFC \<and> enabled_capabilities (config info) NFC = None then
        info\<lparr>config := (config info)
          \<lparr>enabled_capabilities :=
             (enabled_capabilities (config info))(NFC := supported_capabilities info NFC)\<rparr>\<rparr>
      else info)"

definition strip_nfc :: "DeviceInfo \<Rightarrow> DeviceInfo" where
  "strip_nfc info =
     (if version info \<ge> (4, 0, 0) then
        if form_factor info \<in> {USB_A_NANO, USB_C_NANO, USB_C_LIGHTNING}
           \<or> (form_factor info = USB_C_KEYCHAIN \<and> version info < (5, 2, 4))
        then info\<lparr>supported_capabilities := (supported_capabilities info)(NFC := None),
                  config := (config info)
                    \<lparr>enabled_capabilities := (enabled_capabilities (config info))(NFC := None)\<rparr>\<rparr>
        else info
      else info)"

definition read_info_normalize :: "USB_INTERFACE \<Rightarrow> DeviceInfo \<Rightarrow> DeviceInfo" where
  "read_info_normalize interfaces info =
     strip_nfc (set_nfc_enabled (set_fips (set_usb_enabled interfaces info)))"

section \<open>The connection and its sessions\<close>

text \<open>
  The error kinds of the spec's taxonomy (section 7), and the two Python errors the
  code itself can raise: \<^verbatim>\<open>TypeError\<close> in \<^verbatim>\<open>read_info\<close> and \<^verbatim>\<open>KeyError\<close> on a missing
  dictionary key. None of the exception classes is a subclass of another, so an
  \<^verbatim>\<open>except\<close> clause for one kind catches that kind only; \<^verbatim>\<open>except Exception\<close>
  catches all of them.
\<close>

datatype error =
    ApplicationNotAvailableError
  | NotSupportedError
  | CommandRejectedError
  | ProtocolError
  | ChannelError
  | TypeError
  | KeyError

type_synonym AID = "int list"

text \<open>
  The sessions that \<^verbatim>\<open>support.py\<close> opens on a connection (\<^verbatim>\<open>ManagementSession\<close>,
  \<^verbatim>\<open>YubiOtpSession\<close>, \<^verbatim>\<open>SmartCardProtocol\<close>) belong to modules outside the source
  files, and talk to a device. They are parameters of the model: each operation takes
  the state \<open>'s\<close> of the device and the channel and returns the new state with either
  its result or the error it raises. A session object is represented by what the code
  reads from it: the \<^verbatim>\<open>version\<close> attribute.
\<close>

record 's Connection =
  ManagementSession :: "'s \<Rightarrow> (error + Version) \<times> 's"
  read_device_info :: "'s \<Rightarrow> (error + DeviceInfo) \<times> 's"
  send_and_receive :: "int list \<Rightarrow> 's \<Rightarrow> (error + int list) \<times> 's"
  YubiOtpSession :: "'s \<Rightarrow> (error + Version) \<times> 's"
  get_serial :: "'s \<Rightarrow> (error + int) \<times> 's"
  select :: "AID \<Rightarrow> 's \<Rightarrow> (error + unit) \<times> 's"
  sleep :: "'s \<Rightarrow> 's"

section \<open>The CCID resolver\<close>

definition otp_read_data :: "'s Connection \<Rightarrow> 's \<Rightarrow> (error + Version \<times> int option) \<times> 's" where
  "otp_read_data conn s =
     (case YubiOtpSession conn s of
        (Inl e, s1) \<Rightarrow> (Inl e, s1)
      | (Inr otp_version, s1) \<Rightarrow>
          (case get_serial conn s1 of
             (Inr n, s2) \<Rightarrow> (Inr (otp_version, Some n), s2)
           | (Inl e, s2) \<Rightarrow> (Inr (otp_version, None), s2)))"

definition AID_U2F_YUBICO :: AID where
  "AID_U2F_YUBICO = [160, 0, 0, 5, 39, 16, 2]"

text \<open>
  Modelled from the spec: the members of \<^verbatim>\<open>AID\<close> are declared in
  \<^verbatim>\<open>yubikit/core/smartcard.py\<close>, which is not among the source files; the spec (section
  6) calls them fixed byte sequences, and the bytes are those that
  \<^verbatim>\<open>ykman/driver_ccid.py\<close> lists for the same applets.
\<close>

definition AID_FIDO :: AID where "AID_FIDO = [160, 0, 0, 6, 71, 47, 0, 1]"
definition AID_PIV :: AID where "AID_PIV = [160, 0, 0, 3, 8]"
definition AID_OPENPGP :: AID where "AID_OPENPGP = [210, 118, 0, 1, 36, 1]"
definition AID_OATH :: AID where "AID_OATH = [160, 0, 0, 5, 39, 33, 1]"

text \<open>A dictionary that the code only iterates: its items, in insertion order.\<close>

definition SCAN_APPLETS :: "(AID \<times> CAPABILITY) list" where
  "SCAN_APPLETS =
     [(AID_FIDO, CAPABILITY_U2F),
      (AID_U2F_YUBICO, CAPABILITY_U2F),
      (AID_PIV, CAPABILITY_PIV),
      (AID_OPENPGP, CAPABILITY_OPENPGP),
      (AID_OATH, CAPABILITY_OATH)]"

definition BASE_NEO_APPS :: CAPABILITY where
  "BASE_NEO_APPS = (CAPABILITY_OTP OR CAPABILITY_OATH OR CAPABILITY_PIV OR CAPABILITY_OPENPGP)"

text \<open>
  The scan loop of \<^verbatim>\<open>_read_info_ccid\<close>: a successful \<^verbatim>\<open>select\<close> adds the capability;
  both \<^verbatim>\<open>except\<close> clauses (\<^verbatim>\<open>ApplicationNotAvailableError\<close> and \<^verbatim>\<open>Exception\<close>) only
  log, and the loop goes on.
\<close>

fun scan_applets ::
  "'s Connection \<Rightarrow> (AID \<times> CAPABILITY) list \<Rightarrow> CAPABILITY \<Rightarrow> 's \<Rightarrow> CAPABILITY \<times> 's" where
  "scan_applets conn [] capabilities s = (capabilities, s)"
| "scan_applets conn ((aid, code) # rest) capabilities s =
     (case select conn aid s of
        (Inr u, s1) \<Rightarrow> scan_applets conn rest (capabilities OR code) s1
      | (Inl e, s1) \<Rightarrow> scan_applets conn rest capabilities s1)"

text \<open>
  \<^verbatim>\<open>_read_info_ccid\<close> from "Synthesize data" on; \<open>version0\<close> is the value of the
  variable \<^verbatim>\<open>version\<close> when the management part is left.
\<close>

definition read_info_ccid_synthesize ::
  "'s Connection \<Rightarrow> USB_INTERFACE \<Rightarrow> Version option \<Rightarrow> 's \<Rightarrow> (error + DeviceInfo) \<times> 's" where
  "read_info_ccid_synthesize conn interfaces version0 s =
     (case
        (case otp_read_data conn s of
           (Inr (otp_version, serial0), s1) \<Rightarrow>
             (Inr (0 OR CAPABILITY_OTP,
                   (case version0 of None \<Rightarrow> Some otp_version | Some v \<Rightarrow> Some v),
                   serial0), s1)
         | (Inl e, s1) \<Rightarrow>
             if e = ApplicationNotAvailableError then (Inr (0, version0, None), s1)
             else (Inl e, s1))
      of
        (Inl e, s1) \<Rightarrow> (Inl e, s1)
      | (Inr (capabilities0, version1, serial1), s1) \<Rightarrow>
          let version2 = (case version1 of None \<Rightarrow> (3, 0, 0) | Some v \<Rightarrow> v);
              (capabilities1, s2) = scan_applets conn SCAN_APPLETS capabilities0 s1;
              capabilities2 =
                (if flag_in USB_INTERFACE_FIDO interfaces \<or> version2 \<ge> (3, 3, 0)
                 then capabilities1 OR CAPABILITY_U2F else capabilities1)
          in (Inr \<lparr>config =
                     \<lparr>enabled_capabilities = Map.empty,
                      auto_eject_timeout = 0,
                      challenge_response_timeout = 0,
                      device_flags = 0\<rparr>,
                   serial = serial1,
                   version = version2,
                   form_factor = UNKNOWN,
                   supported_capabilities = [USB \<mapsto> capabilities2, NFC \<mapsto> capabilities2],
                   is_locked = False,
                   is_fips = False,
                   is_sky = False\<rparr>, s2))"

text \<open>
  The management part of \<^verbatim>\<open>_read_info_ccid\<close>. The inner \<^verbatim>\<open>try\<close> catches
  \<^verbatim>\<open>NotSupportedError\<close> from \<^verbatim>\<open>read_device_info\<close>; the outer one catches
  \<^verbatim>\<open>ApplicationNotAvailableError\<close> from anything inside it, the de-select command of
  the inner handler included.
\<close>

definition read_info_ccid ::
  "'s Connection \<Rightarrow> YUBIKEY option \<Rightarrow> USB_INTERFACE \<Rightarrow> 's \<Rightarrow> (error + DeviceInfo) \<times> 's" where
  "read_info_ccid conn key_type interfaces s =
     (case ManagementSession conn s of
        (Inl e, s1) \<Rightarrow>
          if e = ApplicationNotAvailableError
          then read_info_ccid_synthesize conn interfaces None s1
          else (Inl e, s1)
      | (Inr mgmt_version, s1) \<Rightarrow>
          (case read_device_info conn s1 of
             (Inr info, s2) \<Rightarrow> (Inr info, s2)
           | (Inl e, s2) \<Rightarrow>
               if e = NotSupportedError then
                 (case send_and_receive conn [164, 4, 0, 8] s2 of
                    (Inr r, s3) \<Rightarrow>
                      read_info_ccid_synthesize conn interfaces (Some mgmt_version) s3
                  | (Inl e', s3) \<Rightarrow>
                      if e' = ApplicationNotAvailableError
                      then read_info_ccid_synthesize conn interfaces (Some mgmt_version) s3
                      else (Inl e', s3))
               else if e = ApplicationNotAvailableError
               then read_info_ccid_synthesize conn interfaces (Some mgmt_version) s2
               else (Inl e, s2)))"

section \<open>The OTP resolver\<close>

text \<open>
  How the \<^verbatim>\<open>for _ in range(8)\<close> loop of \<^verbatim>\<open>_read_info_otp\<close> is left: by the
  \<^verbatim>\<open>return\<close> of the management applet's info, by an exception that no clause
  catches, by a \<^verbatim>\<open>break\<close> (with the OTP session and the value of \<^verbatim>\<open>serial\<close> at that
  point), or by running out of iterations, which is when the loop's \<^verbatim>\<open>else\<close> clause
  runs.
\<close>

datatype loop_exit =
    Return DeviceInfo
  | Raise error
  | Break Version "int option"
  | Exhausted

text \<open>
  The first statement of the loop body, \<^verbatim>\<open>if otp is None: ...\<close>: it leaves the loop
  (\<open>Leave\<close>), raises \<^verbatim>\<open>CommandRejectedError\<close> with \<^verbatim>\<open>otp\<close> still \<open>None\<close>
  (\<open>Rejected\<close>), or goes on to the serial read with an OTP session (\<open>Session\<close>).
\<close>

datatype otp_attempt =
    Leave loop_exit
  | Rejected
  | Session Version

definition otp_session_attempt ::
  "'s Connection \<Rightarrow> Version option \<Rightarrow> 's \<Rightarrow> otp_attempt \<times> 's" where
  "otp_session_attempt conn otp s =
     (case otp of
        Some v \<Rightarrow> (Session v, s)
      | None \<Rightarrow>
          (case read_device_info conn s of
             (Inr info, s1) \<Rightarrow> (Leave (Return info), s1)
           | (Inl e, s1) \<Rightarrow>
               if e = NotSupportedError then
                 (case YubiOtpSession conn s1 of
                    (Inr v, s2) \<Rightarrow> (Session v, s2)
                  | (Inl e', s2) \<Rightarrow>
                      if e' = CommandRejectedError then (Rejected, s2)
                      else (Leave (Raise e'), s2))
               else if e = CommandRejectedError then (Rejected, s1)
               else (Leave (Raise e), s1)))"

text \<open>
  One iteration per \<open>Suc\<close>. \<open>otp\<close> is the variable \<^verbatim>\<open>otp\<close>: \<open>None\<close>, or the
  session (its version). The \<^verbatim>\<open>except CommandRejectedError\<close> clause breaks only if
  \<^verbatim>\<open>otp\<close> is set and the interfaces are exactly \<^verbatim>\<open>USB_INTERFACE.OTP\<close>; otherwise it
  sleeps and the loop goes on. \<^verbatim>\<open>serial\<close> is still \<open>None\<close> whenever that clause
  breaks, since the only assignment to it is followed by a \<^verbatim>\<open>break\<close>.
\<close>

fun otp_loop ::
  "'s Connection \<Rightarrow> USB_INTERFACE \<Rightarrow> nat \<Rightarrow> Version option \<Rightarrow> 's \<Rightarrow> loop_exit \<times> 's" where
  "otp_loop conn interfaces 0 otp s = (Exhausted, s)"
| "otp_loop conn interfaces (Suc n) otp s =
     (case otp_session_attempt conn otp s of
        (Leave exit, s1) \<Rightarrow> (exit, s1)
      | (Rejected, s1) \<Rightarrow> otp_loop conn interfaces n None (sleep conn s1)
      | (Session v, s1) \<Rightarrow>
          (case get_serial conn s1 of
             (Inr serial0, s2) \<Rightarrow> (Break v (Some serial0), s2)
           | (Inl e, s2) \<Rightarrow>
               if e = CommandRejectedError then
                 if interfaces = USB_INTERFACE_OTP then (Break v None, s2)
                 else otp_loop conn interfaces n (Some v) (sleep conn s2)
               else (Raise e, s2)))"

text \<open>\<^verbatim>\<open>_read_info_otp\<close> from "Synthesize info" on.\<close>

definition read_info_otp_synthesize ::
  "YUBIKEY option \<Rightarrow> USB_INTERFACE \<Rightarrow> Version \<Rightarrow> int option \<Rightarrow> DeviceInfo" where
  "read_info_otp_synthesize key_type interfaces otp_version serial0 =
     (let capabilities =
            (if key_type = Some NEO then
               let usb_supported =
                     (if flag_in USB_INTERFACE_FIDO interfaces \<or> otp_version \<ge> (3, 3, 0)
                      then BASE_NEO_APPS OR CAPABILITY_U2F else BASE_NEO_APPS)
               in [USB \<mapsto> usb_supported, NFC \<mapsto> usb_supported]
             else if key_type = Some YKP then
               [USB \<mapsto> CAPABILITY_OTP OR CAPABILITY_U2F]
             else
               [USB \<mapsto> CAPABILITY_OTP])
      in \<lparr>config =
            \<lparr>enabled_capabilities = Map.empty,
             auto_eject_timeout = 0,
             challenge_response_timeout = 0,
             device_flags = 0\<rparr>,
          serial = serial0,
          version = otp_version,
          form_factor = UNKNOWN,
          supported_capabilities = capabilities,
          is_locked = False,
          is_fips = False,
          is_sky = False\<rparr>)"

text \<open>
  The first statement of \<^verbatim>\<open>_read_info_otp\<close>: the management session is opened, and
  only if that raises \<^verbatim>\<open>ApplicationNotAvailableError\<close> an OTP session is. The result
  is the variable \<^verbatim>\<open>otp\<close> at the start of the loop.
\<close>

definition otp_open :: "'s Connection \<Rightarrow> 's \<Rightarrow> (error + Version option) \<times> 's" where
  "otp_open conn s =
     (case ManagementSession conn s of
        (Inr mgmt_version, s1) \<Rightarrow> (Inr None, s1)
      | (Inl e, s1) \<Rightarrow>
          if e = ApplicationNotAvailableError then
            (case YubiOtpSession conn s1 of
               (Inr v, s2) \<Rightarrow> (Inr (Some v), s2)
             | (Inl e', s2) \<Rightarrow> (Inl e', s2))
          else (Inl e, s1))"

definition read_info_otp ::
  "'s Connection \<Rightarrow> YUBIKEY option \<Rightarrow> USB_INTERFACE \<Rightarrow> 's \<Rightarrow> (error + DeviceInfo) \<times> 's" where
  "read_info_otp conn key_type interfaces s =
     (case otp_open conn s of
        (Inl e, s1) \<Rightarrow> (Inl e, s1)
      | (Inr otp, s1) \<Rightarrow>
          (case otp_loop conn interfaces 8 otp s1 of
             (Return info, s2) \<Rightarrow> (Inr info, s2)
           | (Raise e, s2) \<Rightarrow> (Inl e, s2)
           | (Break v serial0, s2) \<Rightarrow>
               (Inr (read_info_otp_synthesize key_type interfaces v serial0), s2)
           | (Exhausted, s2) \<Rightarrow>
               (case YubiOtpSession conn s2 of
                  (Inr v, s3) \<Rightarrow>
                    (Inr (read_info_otp_synthesize key_type interfaces v None), s3)
                | (Inl e, s3) \<Rightarrow> (Inl e, s3))))"

section \<open>The CTAP resolver\<close>

text \<open>The \<^verbatim>\<open>except Exception\<close> branch of \<^verbatim>\<open>_read_info_ctap\<close>.\<close>

definition read_info_ctap_synthesize :: "YUBIKEY option \<Rightarrow> DeviceInfo" where
  "read_info_ctap_synthesize key_type =
     (let version0 = (if key_type = Some YKP then (4, 0, 0) else (3, 0, 0));
          supported_apps0 = [USB \<mapsto> CAPABILITY_U2F];
          supported_apps =
            (if key_type = Some NEO then
               [USB \<mapsto> CAPABILITY_U2F OR BASE_NEO_APPS, NFC \<mapsto> CAPABILITY_U2F OR BASE_NEO_APPS]
             else supported_apps0)
      in \<lparr>config =
            \<lparr>enabled_capabilities = Map.empty,
             auto_eject_timeout = 0,
             challenge_response_timeout = 0,
             device_flags = 0\<rparr>,
          serial = None,
          version = version0,
          form_factor = USB_A_KEYCHAIN,
          supported_capabilities = supported_apps,
          is_locked = False,
          is_fips = False,
          is_sky = False\<rparr>)"

definition read_info_ctap ::
  "'s Connection \<Rightarrow> YUBIKEY option \<Rightarrow> USB_INTERFACE \<Rightarrow> 's \<Rightarrow> (error + DeviceInfo) \<times> 's" where
  "read_info_ctap conn key_type interfaces s =
     (case ManagementSession conn s of
        (Inl e, s1) \<Rightarrow> (Inr (read_info_ctap_synthesize key_type), s1)
      | (Inr mgmt_version, s1) \<Rightarrow>
          (case read_device_info conn s1 of
             (Inr info, s2) \<Rightarrow> (Inr info, s2)
           | (Inl e, s2) \<Rightarrow> (Inr (read_info_ctap_synthesize key_type), s2)))"

section \<open>\<^verbatim>\<open>read_info\<close>\<close>

text \<open>
  A \<^verbatim>\<open>PID\<close> gives the key type and the USB interfaces of a product identifier. The
  \<^verbatim>\<open>isinstance\<close> chain of \<^verbatim>\<open>read_info\<close> is a match on the kind of the connection;
  a connection of no known kind raises \<^verbatim>\<open>TypeError\<close>.
\<close>

record PID =
  yubikey_type :: YUBIKEY
  usb_interfaces :: USB_INTERFACE

datatype connection_kind =
    SmartCardConnection
  | OtpConnection
  | FidoConnection
  | OtherConnection

definition read_info ::
  "'s Connection \<Rightarrow> PID option \<Rightarrow> connection_kind \<Rightarrow> 's \<Rightarrow> (error + DeviceInfo) \<times> 's" where
  "read_info conn pid kind s =
     (let (key_type, interfaces) =
            (case pid of
               Some p \<Rightarrow> (Some (yubikey_type p), usb_interfaces p)
             | None \<Rightarrow> (None, 0))
      in case
           (case kind of
              SmartCardConnection \<Rightarrow> read_info_ccid conn key_type interfaces s
            | OtpConnection \<Rightarrow> read_info_otp conn key_type interfaces s
            | FidoConnection \<Rightarrow> read_info_ctap conn key_type interfaces s
            | OtherConnection \<Rightarrow> (Inl TypeError, s))
         of
           (Inl e, s1) \<Rightarrow> (Inl e, s1)
         | (Inr info, s1) \<Rightarrow> (Inr (read_info_normalize interfaces info), s1))"

section \<open>The naming resolver\<close>

text \<open>
  Modelled from the spec: the values of the \<^verbatim>\<open>YUBIKEY\<close> enumeration (the product
  names that \<^verbatim>\<open>key_type.value\<close> reads) are declared in \<^verbatim>\<open>yubikit/core\<close>, which is not
  among the source files; the spec (4.6) names the classes NEO, YK4 ("YubiKey") and
  the FIDO-only Security Key.
\<close>

fun YUBIKEY_value :: "YUBIKEY \<Rightarrow> string" where
  "YUBIKEY_value YKS = ''YubiKey Standard''"
| "YUBIKEY_value NEO = ''YubiKey NEO''"
| "YUBIKEY_value SKY = ''Security Key by Yubico''"
| "YUBIKEY_value YKP = ''YubiKey Plus''"
| "YUBIKEY_value YK4 = ''YubiKey''"

definition fido_only :: "CAPABILITY \<Rightarrow> bool" where
  "fido_only capabilities = (capabilities AND NOT (CAPABILITY_U2F OR CAPABILITY_FIDO2) = 0)"

text \<open>Python's \<^verbatim>\<open>sep.join(parts)\<close>.\<close>

fun join :: "string \<Rightarrow> string list \<Rightarrow> string" where
  "join sep [] = []"
| "join sep [x] = x"
| "join sep (x # y # ys) = x @ sep @ join sep (y # ys)"

text \<open>
  Python's \<^verbatim>\<open>s.replace(old, new)\<close> for a non-empty \<open>old\<close>: the occurrences of
  \<open>old\<close> are found from the left and do not overlap. (\<^verbatim>\<open>get_name\<close> calls it with
  \<^verbatim>\<open>"5 C"\<close> and \<^verbatim>\<open>"5 A"\<close> only; for an empty \<open>old\<close> Python inserts \<open>new\<close> around
  every character.)
\<close>

function replace :: "string \<Rightarrow> string \<Rightarrow> string \<Rightarrow> string" where
  "replace old new [] = (if old = [] then new else [])"
| "replace old new (c # cs) =
     (if old = [] then new @ c # replace old new cs
      else if take (length old) (c # cs) = old
      then new @ replace old new (drop (length old) (c # cs))
      else c # replace old new cs)"
  by pat_completeness auto
termination
  by (relation "measure (\<lambda>(old, new, s). length s)") auto

text \<open>
  Modelled from the spec: the string form of a \<^verbatim>\<open>Version\<close> (used by the f-string of
  \<^verbatim>\<open>get_name\<close>) is defined in \<^verbatim>\<open>yubikit/core\<close>, which is not among the source files:
  the three numbers in decimal, joined by dots.
\<close>

definition digit_char :: "nat \<Rightarrow> char" where
  "digit_char d = char_of (48 + d)"

function str_nat :: "nat \<Rightarrow> string" where
  "str_nat n = (if n < 10 then [digit_char n] else str_nat (n div 10) @ [digit_char (n mod 10)])"
  by pat_completeness auto
termination
  by (relation "measure id") auto

definition str_int :: "int \<Rightarrow> string" where
  "str_int i = (if i < 0 then CHR ''-'' # str_nat (nat (- i)) else str_nat (nat i))"

fun Version_str :: "Version \<Rightarrow> string" where
  "Version_str (major, minor, patch) = str_int major @ ''.'' @ str_int minor @ ''.'' @ str_int patch"

text \<open>The first block of \<^verbatim>\<open>get_name\<close>: the key type, when the caller gives none.\<close>

definition get_name_key_type :: "DeviceInfo \<Rightarrow> CAPABILITY \<Rightarrow> YUBIKEY option \<Rightarrow> YUBIKEY" where
  "get_name_key_type info usb_supported key_type =
     (case key_type of
        Some k \<Rightarrow> k
      | None \<Rightarrow>
          if serial info = None \<and> fido_only usb_supported then SKY
          else if fst (version info) = 3 then NEO
          else YK4)"

text \<open>The \<^verbatim>\<open>elif info.version >= (5, 1, 0)\<close> branch: the name built from its parts.\<close>

definition get_name_parts :: "DeviceInfo \<Rightarrow> CAPABILITY \<Rightarrow> string list" where
  "get_name_parts info usb_supported =
     (let is_nano = (form_factor info \<in> {USB_A_NANO, USB_C_NANO});
          is_bio = (form_factor info \<in> {USB_A_BIO, USB_C_BIO});
          is_c = (form_factor info \<in> {USB_C_KEYCHAIN, USB_C_NANO, USB_C_BIO})
      in (if is_sky info then [''Security Key'']
          else [''YubiKey''] @ (if \<not> is_bio then [''5''] else []))
       @ (if is_c then [''C'']
          else if form_factor info = USB_C_LIGHTNING then [''Ci''] else [])
       @ (if is_nano then [''Nano''] else [])
       @ (if has_transport info NFC then [''NFC'']
          else if form_factor info = USB_A_KEYCHAIN then [''A''] else [])
       @ (if is_bio
          then [''Bio''] @ (if fido_only usb_supported then [''- FIDO Edition''] else [])
          else [])
       @ (if is_fips info then [''FIPS''] else []))"

text \<open>
  \<^verbatim>\<open>get_name\<close>. Reading \<^verbatim>\<open>info.supported_capabilities[TRANSPORT.USB]\<close> raises
  \<^verbatim>\<open>KeyError\<close> when the map has no USB entry.
\<close>

definition get_name :: "DeviceInfo \<Rightarrow> YUBIKEY option \<Rightarrow> error + string" where
  "get_name info key_type0 =
     (case supported_capabilities info USB of
        None \<Rightarrow> Inl KeyError
      | Some usb_supported \<Rightarrow>
          let key_type = get_name_key_type info usb_supported key_type0;
              device_name = YUBIKEY_value key_type
          in if key_type = SKY then
               let device_name1 =
                     (if \<not> flag_in CAPABILITY_FIDO2 usb_supported
                      then ''FIDO U2F Security Key'' else device_name);
                   device_name2 =
                     (if has_transport info NFC then ''Security Key NFC'' else device_name1)
               in Inr device_name2
             else if key_type = YK4 then
               let major_version = fst (version info)
               in if major_version < 4 then
                    if fst (version info) = 0
                    then Inr (''YubiKey ('' @ Version_str (version info) @ '')'')
                    else Inr ''YubiKey''
                  else
                    let device_name1 =
                          (if major_version = 4 then
                             if is_fips_version (version info) then ''YubiKey FIPS''
                             else if usb_supported = (CAPABILITY_OTP OR CAPABILITY_U2F)
                             then ''YubiKey Edge''
                             else ''YubiKey 4''
                           else device_name)
                    in if is_preview (version info) then Inr ''YubiKey Preview''
                       else if version info \<ge> (5, 1, 0) then
                         Inr (replace ''5 A'' ''5A''
                               (replace ''5 C'' ''5C''
                                 (join '' '' (get_name_parts info usb_supported))))
                       else Inr device_name1
             else Inr device_name)"

section \<open>The CCID driver (\<^verbatim>\<open>ykman/driver_ccid.py\<close>)\<close>

definition SW_OK :: int where "SW_OK = 36864"
definition INS_SELECT :: int where "INS_SELECT = 164"
definition INS_YK4_CAPABILITIES :: int where "INS_YK4_CAPABILITIES = 29"
definition MGR_AID :: "int list" where "MGR_AID = [160, 0, 0, 5, 39, 71, 17, 23]"

text \<open>
  The smart-card connection of the driver (\<^verbatim>\<open>self._conn\<close>, a pyscard connection) is a
  parameter: \<open>transmit\<close> takes the bytes of a command and the state \<open>'c\<close> of the card
  and returns the response bytes, the two status bytes and the new state.
  \<^verbatim>\<open>send_apdu\<close> builds the five-byte header, appends the data and joins the status
  bytes into the status word \<^verbatim>\<open>sw1 << 8 | sw2\<close>.
\<close>

type_synonym 'c transmit = "int list \<Rightarrow> 'c \<Rightarrow> (int list \<times> int \<times> int) \<times> 'c"

definition send_apdu ::
  "'c transmit \<Rightarrow> int \<Rightarrow> int \<Rightarrow> int \<Rightarrow> int \<Rightarrow> int list \<Rightarrow> 'c \<Rightarrow> (int list \<times> int) \<times> 'c" where
  "send_apdu transmit cl ins p1 p2 data c =
     (let header = [cl, ins, p1, p2, int (length data)];
          body = data;
          ((resp, sw1, sw2), c1) = transmit (header @ body) c
      in ((resp, push_bit 8 sw1 OR sw2), c1))"

text \<open>
  \<^verbatim>\<open>CCIDDriver.read_capabilities\<close>; \<open>version0\<close> is \<^verbatim>\<open>self.version\<close>, a tuple of
  integers.
\<close>

definition read_capabilities :: "'c transmit \<Rightarrow> int list \<Rightarrow> 'c \<Rightarrow> int list \<times> 'c" where
  "read_capabilities transmit version0 c =
     (if version0 = [4, 2, 4] then ([3, 1, 1, 63], c)
      else
        let ((r, sw), c1) = send_apdu transmit 0 INS_SELECT 4 0 MGR_AID c
        in if sw \<noteq> SW_OK then ([], c1)
           else
             let ((capa, sw'), c2) = send_apdu transmit 0 INS_YK4_CAPABILITIES 0 0 [] c1
             in (capa, c2))"

text \<open>
  A connection that records what is transmitted: the state is the list of the commands
  sent so far, with the state of the card.
\<close>

definition recording :: "'c transmit \<Rightarrow> (int list list \<times> 'c) transmit" where
  "recording transmit apdu st =
     (let (r, c1) = transmit apdu (snd st) in (r, (fst st @ [apdu], c1)))"

section \<open>Notions used by the properties\<close>

text \<open>
  The invariant of the data model, for one transport: an enabled entry, if there is
  one, comes with a supported entry and is a subset of it.
\<close>

definition enabled_within :: "DeviceInfo \<Rightarrow> TRANSPORT \<Rightarrow> bool" where
  "enabled_within info t =
     (case enabled_capabilities (config info) t of
        None \<Rightarrow> True
      | Some e \<Rightarrow>
          (case supported_capabilities info t of
             None \<Rightarrow> False
           | Some s \<Rightarrow> cap_subset e s))"

text \<open>What the three interface tests of \<^verbatim>\<open>read_info\<close> leave of \<^verbatim>\<open>usb_enabled\<close>.\<close>

definition usb_mask :: "USB_INTERFACE \<Rightarrow> CAPABILITY \<Rightarrow> CAPABILITY" where
  "usb_mask interfaces usb_enabled =
     (let e1 = (if \<not> flag_in USB_INTERFACE_OTP interfaces
                then usb_enabled AND NOT CAPABILITY_OTP else usb_enabled);
          e2 = (if \<not> flag_in USB_INTERFACE_FIDO interfaces
                then e1 AND NOT (CAPABILITY_U2F OR CAPABILITY_FIDO2) else e1)
      in (if \<not> flag_in USB_INTERFACE_CCID interfaces
          then e2 AND NOT (USB_INTERFACE_CCID OR CAPABILITY_OATH
                            OR CAPABILITY_OPENPGP OR CAPABILITY_PIV)
          else e2))"

text \<open>The test of the last block of \<^verbatim>\<open>read_info\<close>, and what a second run finds.\<close>

definition nfc_excluded :: "DeviceInfo \<Rightarrow> bool" where
  "nfc_excluded info =
     (version info \<ge> (4, 0, 0)
      \<and> (form_factor info \<in> {USB_A_NANO, USB_C_NANO, USB_C_LIGHTNING}
         \<or> (form_factor info = USB_C_KEYCHAIN \<and> version info < (5, 2, 4))))"

definition normalized :: "DeviceInfo \<Rightarrow> bool" where
  "normalized info =
     ((supported_capabilities info USB \<noteq> None \<longrightarrow> enabled_capabilities (config info) USB \<noteq> None)
      \<and> (supported_capabilities info NFC \<noteq> None \<longrightarrow> enabled_capabilities (config info) NFC \<noteq> None)
      \<and> (is_fips_version (version info) \<longrightarrow> is_fips info)
      \<and> (nfc_excluded info \<longrightarrow>
           supported_capabilities info NFC = None
           \<and> enabled_capabilities (config info) NFC = None))"


definition pid_interfaces :: "PID option \<Rightarrow> USB_INTERFACE" where
  "pid_interfaces pid = (case pid of Some p \<Rightarrow> usb_interfaces p | None \<Rightarrow> 0)"

definition normalize_result ::
  "USB_INTERFACE \<Rightarrow> (error + DeviceInfo) \<times> 's \<Rightarrow> (error + DeviceInfo) \<times> 's" where
  "normalize_result interfaces r =
     (case r of
        (Inl e, s1) \<Rightarrow> (Inl e, s1)
      | (Inr info, s1) \<Rightarrow> (Inr (read_info_normalize interfaces info), s1))"

text \<open>The two commands that \<^verbatim>\<open>read_capabilities\<close> can send.\<close>

definition select_manager :: "int list" where
  "select_manager = [0, INS_SELECT, 4, 0, 8] @ MGR_AID"

definition capabilities_query :: "int list" where
  "capabilities_query = [0, INS_YK4_CAPABILITIES, 0, 0, 0]"

section \<open>Concrete devices\<close>

text \<open>
  A \<^verbatim>\<open>DeviceInfo\<close> as the resolvers build it: no enabled capabilities yet, no serial,
  no flags.
\<close>

definition raw_info :: "Version \<Rightarrow> FORM_FACTOR \<Rightarrow> (TRANSPORT \<rightharpoonup> CAPABILITY) \<Rightarrow> DeviceInfo" where
  "raw_info v ff supported =
     \<lparr>config =
        \<lparr>enabled_capabilities = Map.empty,
         auto_eject_timeout = 0,
         challenge_response_timeout = 0,
         device_flags = 0\<rparr>,
      serial = None,
      version = v,
      form_factor = ff,
      supported_capabilities = supported,
      is_locked = False,
      is_fips = False,
      is_sky = False\<rparr>"

text \<open>The same with enabled capabilities, as the management applet reports them.\<close>

definition reported_info ::
  "Version \<Rightarrow> FORM_FACTOR \<Rightarrow> (TRANSPORT \<rightharpoonup> CAPABILITY) \<Rightarrow> (TRANSPORT \<rightharpoonup> CAPABILITY) \<Rightarrow> DeviceInfo" where
  "reported_info v ff supported enabled =
     \<lparr>config =
        \<lparr>enabled_capabilities = enabled,
         auto_eject_timeout = 0,
         challenge_response_timeout = 0,
         device_flags = 0\<rparr>,
      serial = Some 7654321,
      version = v,
      form_factor = ff,
      supported_capabilities = supported,
      is_locked = False,
      is_fips = False,
      is_sky = False\<rparr>"



text \<open>
  A NEO over CCID: no management applet, firmware 3.4.0, and of the scanned applets
  only PIV.
\<close>

definition neo_conn :: "unit Connection" where
  "neo_conn =
     \<lparr>ManagementSession = (\<lambda>s. (Inl ApplicationNotAvailableError, s)),
      read_device_info = (\<lambda>s. (Inl ApplicationNotAvailableError, s)),
      send_and_receive = (\<lambda>b s. (Inr [], s)),
      YubiOtpSession = (\<lambda>s. (Inr (3, 4, 0), s)),
      get_serial = (\<lambda>s. (Inr 5417283, s)),
      select = (\<lambda>aid s. (if aid = AID_PIV then Inr () else Inl ApplicationNotAvailableError, s)),
      sleep = (\<lambda>s. s)\<rparr>"



text \<open>
  An OTP connection in its reclaim period: no management applet, and the serial read
  is rejected three times before it succeeds. The state counts the serial reads and the
  sleeps.
\<close>

definition reclaim_conn :: "(nat \<times> nat) Connection" where
  "reclaim_conn =
     \<lparr>ManagementSession = (\<lambda>s. (Inl ApplicationNotAvailableError, s)),
      read_device_info = (\<lambda>s. (Inl ApplicationNotAvailableError, s)),
      send_and_receive = (\<lambda>b s. (Inr [], s)),
      YubiOtpSession = (\<lambda>s. (Inr (4, 3, 1), s)),
      get_serial = (\<lambda>(attempts, sleeps).
         (if attempts < 3 then Inl CommandRejectedError else Inr 7654321,
          (Suc attempts, sleeps))),
      select = (\<lambda>aid s. (Inl ApplicationNotAvailableError, s)),
      sleep = (\<lambda>(attempts, sleeps). (attempts, Suc sleeps))\<rparr>"

text \<open>A card without the management applet: every command is answered 6A82.\<close>

definition no_manager_card :: "unit transmit" where
  "no_manager_card apdu c = (([], 106, 130), c)"

text \<open>A card that selects the management applet and answers the capability query.\<close>

definition yk4_card :: "unit transmit" where
  "yk4_card apdu c =
     (if apdu = [0, 164, 4, 0, 8, 160, 0, 0, 5, 39, 71, 17, 23] then (([4, 3, 1], 144, 0), c)
      else if apdu = [0, 29, 0, 0, 0] then (([3, 1, 1, 63], 144, 0), c)
      else (([], 109, 0), c))"

section \<open>Properties\<close>

subsection \<open>Version predicates\<close>

text \<open>
  C4. The preview classifier is true at version (5,2,1), false at (5,2,3), where the
  second range ends (the end is exclusive), and true at (5,2,0), where it starts (the
  start is inclusive).
\<close>

theorem is_preview_boundaries:
  "is_preview (5, 2, 1) \<and> \<not> is_preview (5, 2, 3) \<and> is_preview (5, 2, 0)"
  by (simp add: is_preview_def PREVIEW_RANGES_def)

subsection \<open>Normalization: what each block changes\<close>

lemmas flag_defs =
  CAPABILITY_OTP_def CAPABILITY_U2F_def CAPABILITY_OPENPGP_def CAPABILITY_PIV_def
  CAPABILITY_OATH_def CAPABILITY_FIDO2_def
  USB_INTERFACE_OTP_def USB_INTERFACE_FIDO_def USB_INTERFACE_CCID_def

lemma set_usb_enabled_fields [simp]:
  "version (set_usb_enabled i info) = version info"
  "form_factor (set_usb_enabled i info) = form_factor info"
  "is_fips (set_usb_enabled i info) = is_fips info"
  "enabled_capabilities (config (set_usb_enabled i info)) NFC
     = enabled_capabilities (config info) NFC"
  by (simp_all add: set_usb_enabled_def Let_def split: option.splits)

lemma set_usb_enabled_covers:
  "supported_capabilities (set_usb_enabled i x) USB \<noteq> None
   \<Longrightarrow> enabled_capabilities (config (set_usb_enabled i x)) USB \<noteq> None"
  by (cases "supported_capabilities x USB"; cases "enabled_capabilities (config x) USB")
     (simp_all add: set_usb_enabled_def has_transport_def Let_def)

lemma set_usb_enabled_Some:
  assumes "supported_capabilities x USB = Some u"
    and "enabled_capabilities (config x) USB = None"
  shows "enabled_capabilities (config (set_usb_enabled i x)) USB = Some (usb_mask i u)"
    and "supported_capabilities (set_usb_enabled i x) USB =
           Some (if u = (CAPABILITY_OTP OR CAPABILITY_U2F OR USB_INTERFACE_CCID)
                 then CAPABILITY_OTP OR CAPABILITY_U2F else u)"
  using assms by (simp_all add: set_usb_enabled_def has_transport_def Let_def usb_mask_def)

lemma set_usb_enabled_None:
  "supported_capabilities x USB = None \<Longrightarrow> set_usb_enabled i x = x"
  by (simp add: set_usb_enabled_def has_transport_def)

lemma set_fips_fields [simp]:
  "version (set_fips x) = version x"
  "form_factor (set_fips x) = form_factor x"
  "supported_capabilities (set_fips x) = supported_capabilities x"
  "config (set_fips x) = config x"
  by (simp_all add: set_fips_def)

lemma set_fips_flag: "is_fips (set_fips x) = (is_fips_version (version x) \<or> is_fips x)"
  by (simp add: set_fips_def)

lemma set_nfc_enabled_fields [simp]:
  "version (set_nfc_enabled x) = version x"
  "form_factor (set_nfc_enabled x) = form_factor x"
  "supported_capabilities (set_nfc_enabled x) = supported_capabilities x"
  "is_fips (set_nfc_enabled x) = is_fips x"
  "enabled_capabilities (config (set_nfc_enabled x)) USB = enabled_capabilities (config x) USB"
  by (simp_all add: set_nfc_enabled_def)

lemma set_nfc_enabled_covers:
  "supported_capabilities x NFC \<noteq> None
   \<Longrightarrow> enabled_capabilities (config (set_nfc_enabled x)) NFC \<noteq> None"
  by (auto simp add: set_nfc_enabled_def has_transport_def)

lemma strip_nfc_alt:
  "strip_nfc x =
     (if nfc_excluded x
      then x\<lparr>supported_capabilities := (supported_capabilities x)(NFC := None),
             config := (config x)
               \<lparr>enabled_capabilities := (enabled_capabilities (config x))(NFC := None)\<rparr>\<rparr>
      else x)"
  by (simp add: strip_nfc_def nfc_excluded_def)

lemma strip_nfc_fields [simp]:
  "version (strip_nfc x) = version x"
  "form_factor (strip_nfc x) = form_factor x"
  "is_fips (strip_nfc x) = is_fips x"
  "supported_capabilities (strip_nfc x) USB = supported_capabilities x USB"
  "enabled_capabilities (config (strip_nfc x)) USB = enabled_capabilities (config x) USB"
  by (simp_all add: strip_nfc_alt)

lemma strip_nfc_NFC:
  "supported_capabilities (strip_nfc x) NFC
     = (if nfc_excluded x then None else supported_capabilities x NFC)"
  "enabled_capabilities (config (strip_nfc x)) NFC
     = (if nfc_excluded x then None else enabled_capabilities (config x) NFC)"
  by (simp_all add: strip_nfc_alt)

lemma nfc_excluded_cong:
  "version x = version y \<Longrightarrow> form_factor x = form_factor y \<Longrightarrow> nfc_excluded x = nfc_excluded y"
  by (simp add: nfc_excluded_def)

lemma normalize_fields:
  "version (read_info_normalize i x) = version x"
  "is_fips (read_info_normalize i x) = (is_fips_version (version x) \<or> is_fips x)"
  "enabled_capabilities (config (read_info_normalize i x)) USB
     = enabled_capabilities (config (set_usb_enabled i x)) USB"
  "supported_capabilities (read_info_normalize i x) USB
     = supported_capabilities (set_usb_enabled i x) USB"
  by (simp_all add: read_info_normalize_def set_fips_flag)

subsection \<open>The FIPS flag\<close>

text \<open>
  C2, amended. After normalization the FIPS flag is true for every firmware version
  \<open>v\<close> with 4.4.0 \<open>\<le>\<close> \<open>v\<close> < 4.5.0. For a version outside that range the flag is
  not cleared: \<^verbatim>\<open>read_info\<close> only ever assigns \<^verbatim>\<open>True\<close>, so the flag keeps the value that
  the resolver reported.
\<close>

theorem fips_flag_after_normalize:
  "(is_fips_version (version info) \<longrightarrow> is_fips (read_info_normalize interfaces info))
   \<and> (\<not> is_fips_version (version info) \<longrightarrow>
        is_fips (read_info_normalize interfaces info) = is_fips info)"
  by (simp add: normalize_fields)

theorem fips_flag_after_normalize_witness:
  "is_fips_version (4, 4, 2)
   \<and> is_fips (read_info_normalize 7 (raw_info (4, 4, 2) UNKNOWN [USB \<mapsto> 63]))
   \<and> \<not> is_fips_version (5, 4, 3)
   \<and> \<not> is_fips (read_info_normalize 7 (raw_info (5, 4, 3) USB_C_KEYCHAIN [USB \<mapsto> 571]))"
  using fips_flag_after_normalize [of "raw_info (4, 4, 2) UNKNOWN [USB \<mapsto> 63]" 7]
    fips_flag_after_normalize [of "raw_info (5, 4, 3) USB_C_KEYCHAIN [USB \<mapsto> 571]" 7]
  by (simp add: raw_info_def is_fips_version_def)

text \<open>
  The claim as stated fails for a YubiKey 5 FIPS: firmware 5.4.3 is outside the range,
  the management applet reports the FIPS flag, and normalization leaves it set.
\<close>

theorem fips_flag_kept_counterexample:
  "\<not> is_fips_version (5, 4, 3)
   \<and> is_fips (read_info_normalize 7
        ((reported_info (5, 4, 3) USB_C_KEYCHAIN [USB \<mapsto> 571] [USB \<mapsto> 571])\<lparr>is_fips := True\<rparr>))"
  by (simp add: normalize_fields reported_info_def is_fips_version_def)

subsection \<open>Idempotence\<close>

lemma set_usb_enabled_fix:
  "(supported_capabilities y USB \<noteq> None \<longrightarrow> enabled_capabilities (config y) USB \<noteq> None)
   \<Longrightarrow> set_usb_enabled j y = y"
  by (auto simp add: set_usb_enabled_def has_transport_def)

lemma set_fips_fix: "(is_fips_version (version y) \<longrightarrow> is_fips y) \<Longrightarrow> set_fips y = y"
  by (auto simp add: set_fips_def)

lemma set_nfc_enabled_fix:
  "(supported_capabilities y NFC \<noteq> None \<longrightarrow> enabled_capabilities (config y) NFC \<noteq> None)
   \<Longrightarrow> set_nfc_enabled y = y"
  by (auto simp add: set_nfc_enabled_def has_transport_def)

lemma strip_nfc_fix:
  "(nfc_excluded y \<longrightarrow>
      supported_capabilities y NFC = None \<and> enabled_capabilities (config y) NFC = None)
   \<Longrightarrow> strip_nfc y = y"
  by (auto simp add: strip_nfc_alt fun_upd_idem)

lemma normalized_fix: "normalized y \<Longrightarrow> read_info_normalize j y = y"
  unfolding normalized_def read_info_normalize_def
  by (simp add: set_usb_enabled_fix set_fips_fix set_nfc_enabled_fix strip_nfc_fix)

lemma normalized_normalize: "normalized (read_info_normalize i x)"
proof -
  let ?a = "set_usb_enabled i x"
  let ?b = "set_fips ?a"
  let ?c = "set_nfc_enabled ?b"
  let ?d = "strip_nfc ?c"
  have usb: "supported_capabilities ?d USB \<noteq> None \<longrightarrow>
               enabled_capabilities (config ?d) USB \<noteq> None"
    using set_usb_enabled_covers [of i x] by simp
  have nfc: "supported_capabilities ?d NFC \<noteq> None \<longrightarrow>
               enabled_capabilities (config ?d) NFC \<noteq> None"
    using set_nfc_enabled_covers [of ?b] by (simp add: strip_nfc_NFC)
  have fips: "is_fips_version (version ?d) \<longrightarrow> is_fips ?d"
    by (simp add: set_fips_flag)
  have ex: "nfc_excluded ?d = nfc_excluded ?c"
    by (rule nfc_excluded_cong) simp_all
  have strip: "nfc_excluded ?d \<longrightarrow>
                 supported_capabilities ?d NFC = None
                 \<and> enabled_capabilities (config ?d) NFC = None"
    unfolding ex by (simp add: strip_nfc_NFC)
  show ?thesis
    unfolding normalized_def read_info_normalize_def
    using usb nfc fips strip by blast
qed

lemma read_info_normalize_fixed:
  "read_info_normalize j (read_info_normalize i x) = read_info_normalize i x"
  by (rule normalized_fix [OF normalized_normalize])

text \<open>
  C6. Normalization is idempotent: for every \<^verbatim>\<open>DeviceInfo\<close> and every interfaces
  argument, running the normalization phase (enabled-USB derivation with the Edge rule,
  FIPS flag, enabled-NFC default, NFC stripping) on its own result gives the same
  supported and enabled capability maps, indeed the same record.
\<close>

theorem read_info_normalize_idempotent:
  "supported_capabilities (read_info_normalize interfaces (read_info_normalize interfaces info))
     = supported_capabilities (read_info_normalize interfaces info)
   \<and> enabled_capabilities (config (read_info_normalize interfaces (read_info_normalize interfaces info)))
     = enabled_capabilities (config (read_info_normalize interfaces info))
   \<and> read_info_normalize interfaces (read_info_normalize interfaces info)
     = read_info_normalize interfaces info"
  by (simp add: read_info_normalize_fixed)

subsection \<open>Enabled capabilities within the supported ones\<close>

text \<open>
  The complement within the ten flag bits masks a set of declared bits as the complement
  of the integer does.
\<close>

lemma and_not_within_flag_bits:
  "x AND 1023 = x \<Longrightarrow> x AND NOT m = x AND (1023 AND NOT m)" for x m :: int
proof -
  assume "x AND 1023 = x"
  then have "x AND NOT m = (x AND 1023) AND NOT m"
    by simp
  then show ?thesis
    by (simp add: and.assoc)
qed

lemma fido_only_within_flag_bits:
  "x AND 1023 = x \<Longrightarrow>
   fido_only x = (x AND (1023 AND NOT (CAPABILITY_U2F OR CAPABILITY_FIDO2)) = 0)"
  unfolding fido_only_def by (simp only: and_not_within_flag_bits)

lemma cap_subset_refl: "cap_subset u u"
  by (simp add: cap_subset_def)

lemma cap_subset_and: "cap_subset a b \<Longrightarrow> cap_subset (a AND m) b"
  by (auto simp add: cap_subset_def bit_eq_iff bit_and_iff bit_not_iff)

lemma usb_mask_subset: "cap_subset (usb_mask i u) u"
  by (cases "flag_in USB_INTERFACE_OTP i"; cases "flag_in USB_INTERFACE_FIDO i";
      cases "flag_in USB_INTERFACE_CCID i")
     (simp_all add: usb_mask_def cap_subset_and cap_subset_refl)

lemma flag_in_and: "\<not> flag_in f a \<Longrightarrow> \<not> flag_in f (a AND m)"
  by (auto simp add: flag_in_def bit_eq_iff bit_and_iff)

lemma flag_in_OTP: "flag_in CAPABILITY_OTP x = odd x"
  by (simp add: flag_in_def CAPABILITY_OTP_def one_and_eq odd_iff_mod_2_eq_one)

lemma no_otp_base: "\<not> flag_in CAPABILITY_OTP (u AND NOT CAPABILITY_OTP)"
  by (simp add: flag_in_OTP) (simp add: CAPABILITY_OTP_def even_and_iff)

lemma usb_mask_no_otp:
  "\<not> flag_in USB_INTERFACE_OTP i \<Longrightarrow> \<not> flag_in CAPABILITY_OTP (usb_mask i u)"
  by (cases "flag_in USB_INTERFACE_FIDO i"; cases "flag_in USB_INTERFACE_CCID i")
     (simp_all add: usb_mask_def flag_in_and no_otp_base)

lemma usb_mask_edge:
  "\<not> flag_in USB_INTERFACE_CCID i \<Longrightarrow>
   cap_subset (usb_mask i (CAPABILITY_OTP OR CAPABILITY_U2F OR USB_INTERFACE_CCID))
     (CAPABILITY_OTP OR CAPABILITY_U2F)"
  by (simp add: usb_mask_def Let_def cap_subset_def flag_defs)

lemma usb_mask_edge_ccid:
  "flag_in USB_INTERFACE_CCID i \<Longrightarrow>
   \<not> cap_subset (usb_mask i (CAPABILITY_OTP OR CAPABILITY_U2F OR USB_INTERFACE_CCID))
       (CAPABILITY_OTP OR CAPABILITY_U2F)"
  by (cases "flag_in USB_INTERFACE_OTP i"; cases "flag_in USB_INTERFACE_FIDO i")
     (simp_all add: usb_mask_def cap_subset_def, simp_all add: flag_defs)

lemma normalize_NFC_within:
  assumes "enabled_capabilities (config x) NFC = None"
  shows "enabled_within (read_info_normalize i x) NFC"
proof -
  let ?b = "set_fips (set_usb_enabled i x)"
  have "enabled_capabilities (config ?b) NFC = None"
    using assms by simp
  then have "enabled_capabilities (config (set_nfc_enabled ?b)) NFC
               = supported_capabilities (set_nfc_enabled ?b) NFC"
    by (cases "supported_capabilities ?b NFC") (simp_all add: set_nfc_enabled_def has_transport_def)
  then show ?thesis
    by (simp add: enabled_within_def read_info_normalize_def strip_nfc_NFC cap_subset_refl
          split: option.splits)
qed

lemma normalize_NFC_kept:
  assumes "enabled_capabilities (config x) NFC = Some e"
  shows "enabled_capabilities (config (read_info_normalize i x)) NFC
           = (if nfc_excluded x then None else Some e)"
proof -
  let ?b = "set_fips (set_usb_enabled i x)"
  have b: "enabled_capabilities (config ?b) NFC = Some e"
    using assms by simp
  then have c: "enabled_capabilities (config (set_nfc_enabled ?b)) NFC = Some e"
    by (simp add: set_nfc_enabled_def)
  have ex: "nfc_excluded (set_nfc_enabled ?b) = nfc_excluded x"
    by (rule nfc_excluded_cong) simp_all
  show ?thesis
    by (simp add: read_info_normalize_def strip_nfc_NFC ex c)
qed

text \<open>
  C1, amended. For every \<^verbatim>\<open>DeviceInfo\<close> that enters normalization with no enabled entry
  for USB: if USB is supported, normalization gives it an enabled USB entry; the OTP bit
  is cleared from that entry whenever the OTP interface is absent from \<open>interfaces\<close>;
  the enabled USB set is a subset of the supported USB set, except exactly when the
  supported USB set was OTP, U2F and the CCID bit (the Edge) and the CCID interface is
  among \<open>interfaces\<close> (there the code narrows the supported set to OTP and U2F and
  leaves the CCID bit in the enabled set); for NFC, when there was no enabled entry for
  it either, the enabled NFC set is a subset of the supported one; and an enabled NFC
  entry that is there before normalization is not brought within the supported set: it
  is removed when NFC is stripped (firmware from 4.0.0 on with a nano or lightning form
  factor, or a USB-C keychain below 5.2.4) and kept as it is otherwise.
\<close>

theorem enabled_within_supported_after_normalize:
  assumes "enabled_capabilities (config info) USB = None"
  shows "(supported_capabilities info USB \<noteq> None \<longrightarrow>
            enabled_capabilities (config (read_info_normalize interfaces info)) USB \<noteq> None)
       \<and> (\<not> flag_in USB_INTERFACE_OTP interfaces \<longrightarrow>
            (\<forall>e. enabled_capabilities (config (read_info_normalize interfaces info)) USB = Some e
                  \<longrightarrow> \<not> flag_in CAPABILITY_OTP e))
       \<and> (enabled_within (read_info_normalize interfaces info) USB
            \<longleftrightarrow> \<not> (supported_capabilities info USB
                      = Some (CAPABILITY_OTP OR CAPABILITY_U2F OR USB_INTERFACE_CCID)
                    \<and> flag_in USB_INTERFACE_CCID interfaces))
       \<and> (enabled_capabilities (config info) NFC = None \<longrightarrow>
            enabled_within (read_info_normalize interfaces info) NFC)
       \<and> (\<forall>e. enabled_capabilities (config info) NFC = Some e \<longrightarrow>
            enabled_capabilities (config (read_info_normalize interfaces info)) NFC
              = (if nfc_excluded info then None else Some e))"
proof (cases "supported_capabilities info USB")
  case None
  have "enabled_within (read_info_normalize interfaces info) USB"
    using None assms by (simp add: enabled_within_def normalize_fields set_usb_enabled_None)
  then show ?thesis
    using None assms
    by (simp add: normalize_fields set_usb_enabled_None normalize_NFC_within normalize_NFC_kept)
next
  case (Some u)
  note en = set_usb_enabled_Some [OF Some assms, of interfaces]
  have otp: "\<not> flag_in USB_INTERFACE_OTP interfaces
             \<Longrightarrow> \<not> flag_in CAPABILITY_OTP (usb_mask interfaces u)"
    by (rule usb_mask_no_otp)
  have sub: "enabled_within (read_info_normalize interfaces info) USB
             \<longleftrightarrow> \<not> (u = (CAPABILITY_OTP OR CAPABILITY_U2F OR USB_INTERFACE_CCID)
                       \<and> flag_in USB_INTERFACE_CCID interfaces)"
    using usb_mask_subset [of interfaces u] usb_mask_edge [of interfaces]
      usb_mask_edge_ccid [of interfaces]
    by (auto simp add: enabled_within_def normalize_fields en)
  show ?thesis
    using Some otp sub
    by (simp add: normalize_fields en normalize_NFC_within normalize_NFC_kept)
qed

text \<open>
  At a NEO as the CCID resolver synthesizes it (OTP, U2F, OpenPGP, PIV and OATH on both
  transports), with the FIDO and CCID interfaces active and the OTP interface not; and at
  two records that come with an enabled NFC entry, a 4.0.0 nano, where NFC is stripped,
  and a NEO, where it is not.
\<close>

theorem enabled_within_supported_witness:
  "enabled_capabilities (config (raw_info (3, 4, 0) UNKNOWN [USB \<mapsto> 59, NFC \<mapsto> 59])) USB = None
   \<and> \<not> flag_in USB_INTERFACE_OTP 6
   \<and> enabled_capabilities
        (config (read_info_normalize 6 (raw_info (3, 4, 0) UNKNOWN [USB \<mapsto> 59, NFC \<mapsto> 59]))) USB
        = Some 58
   \<and> \<not> flag_in CAPABILITY_OTP 58
   \<and> enabled_within (read_info_normalize 6 (raw_info (3, 4, 0) UNKNOWN [USB \<mapsto> 59, NFC \<mapsto> 59])) USB
   \<and> enabled_within (read_info_normalize 6 (raw_info (3, 4, 0) UNKNOWN [USB \<mapsto> 59, NFC \<mapsto> 59])) NFC
   \<and> enabled_capabilities
        (config (reported_info (4, 0, 0) USB_A_NANO [USB \<mapsto> 59, NFC \<mapsto> 59] [NFC \<mapsto> 8])) USB = None
   \<and> enabled_capabilities
        (config (reported_info (4, 0, 0) USB_A_NANO [USB \<mapsto> 59, NFC \<mapsto> 59] [NFC \<mapsto> 8])) NFC = Some 8
   \<and> nfc_excluded (reported_info (4, 0, 0) USB_A_NANO [USB \<mapsto> 59, NFC \<mapsto> 59] [NFC \<mapsto> 8])
   \<and> enabled_capabilities
        (config (read_info_normalize 6
          (reported_info (4, 0, 0) USB_A_NANO [USB \<mapsto> 59, NFC \<mapsto> 59] [NFC \<mapsto> 8]))) NFC = None
   \<and> \<not> nfc_excluded (reported_info (3, 4, 0) UNKNOWN [USB \<mapsto> 59, NFC \<mapsto> 59] [NFC \<mapsto> 8])
   \<and> enabled_capabilities
        (config (read_info_normalize 6
          (reported_info (3, 4, 0) UNKNOWN [USB \<mapsto> 59, NFC \<mapsto> 59] [NFC \<mapsto> 8]))) NFC = Some 8"
proof -
  let ?w = "raw_info (3, 4, 0) UNKNOWN [USB \<mapsto> 59, NFC \<mapsto> 59]"
  let ?nano = "reported_info (4, 0, 0) USB_A_NANO [USB \<mapsto> 59, NFC \<mapsto> 59] [NFC \<mapsto> 8]"
  let ?neo = "reported_info (3, 4, 0) UNKNOWN [USB \<mapsto> 59, NFC \<mapsto> 59] [NFC \<mapsto> 8]"
  have a: "enabled_capabilities (config ?w) USB = None"
    and n: "enabled_capabilities (config ?w) NFC = None"
    and s: "supported_capabilities ?w USB = Some 59"
    by (simp_all add: raw_info_def)
  have i: "\<not> flag_in USB_INTERFACE_OTP 6" "flag_in USB_INTERFACE_FIDO 6" "flag_in USB_INTERFACE_CCID 6"
    by (simp_all add: flag_in_def flag_defs)
  have e: "enabled_capabilities (config (read_info_normalize 6 ?w)) USB = Some 58"
    by (simp add: normalize_fields set_usb_enabled_Some [OF s a] usb_mask_def i)
       (simp add: flag_defs)
  have first: "\<not> flag_in CAPABILITY_OTP 58
      \<and> enabled_within (read_info_normalize 6 ?w) USB
      \<and> enabled_within (read_info_normalize 6 ?w) NFC"
    using enabled_within_supported_after_normalize [OF a, of 6] a n s i e
    by (simp add: flag_defs)
  have na: "enabled_capabilities (config ?nano) USB = None"
    and nn: "enabled_capabilities (config ?nano) NFC = Some 8"
    and nx: "nfc_excluded ?nano"
    by (simp_all add: reported_info_def nfc_excluded_def)
  have second: "enabled_capabilities (config (read_info_normalize 6 ?nano)) NFC = None"
    using enabled_within_supported_after_normalize [OF na, of 6] nn nx by simp
  have oa: "enabled_capabilities (config ?neo) USB = None"
    and on: "enabled_capabilities (config ?neo) NFC = Some 8"
    and ox: "\<not> nfc_excluded ?neo"
    by (simp_all add: reported_info_def nfc_excluded_def)
  have third: "enabled_capabilities (config (read_info_normalize 6 ?neo)) NFC = Some 8"
    using enabled_within_supported_after_normalize [OF oa, of 6] on ox by simp
  show ?thesis
    using a i(1) e first na nn nx second ox third by simp
qed

text \<open>
  The claim as stated fails in two ways. A YubiKey Edge (supported USB capabilities OTP,
  U2F and the CCID bit, 7) with all three interfaces active ends with the supported set
  narrowed to 3 and the enabled set still 7. And an enabled NFC entry that is there
  before normalization is not compared with the supported set: here it stays 2 beside a
  supported set of 1.
\<close>

theorem enabled_within_supported_counterexample:
  "enabled_capabilities (config (raw_info (4, 2, 7) UNKNOWN [USB \<mapsto> 7])) USB = None
   \<and> enabled_capabilities (config (read_info_normalize 7 (raw_info (4, 2, 7) UNKNOWN [USB \<mapsto> 7]))) USB
        = Some 7
   \<and> supported_capabilities (read_info_normalize 7 (raw_info (4, 2, 7) UNKNOWN [USB \<mapsto> 7])) USB
        = Some 3
   \<and> \<not> cap_subset 7 3
   \<and> \<not> enabled_within (read_info_normalize 7 (raw_info (4, 2, 7) UNKNOWN [USB \<mapsto> 7])) USB
   \<and> enabled_capabilities
        (config (reported_info (3, 4, 0) UNKNOWN [USB \<mapsto> 1, NFC \<mapsto> 1] [NFC \<mapsto> 2])) USB = None
   \<and> \<not> enabled_within
          (read_info_normalize 7
            (reported_info (3, 4, 0) UNKNOWN [USB \<mapsto> 1, NFC \<mapsto> 1] [NFC \<mapsto> 2])) NFC"
proof -
  let ?edge = "raw_info (4, 2, 7) UNKNOWN [USB \<mapsto> 7]"
  let ?nfc = "reported_info (3, 4, 0) UNKNOWN [USB \<mapsto> 1, NFC \<mapsto> 1] [NFC \<mapsto> 2]"
  have a: "enabled_capabilities (config ?edge) USB = None"
    and s: "supported_capabilities ?edge USB = Some 7"
    by (simp_all add: raw_info_def)
  have i: "flag_in USB_INTERFACE_OTP 7" "flag_in USB_INTERFACE_FIDO 7" "flag_in USB_INTERFACE_CCID 7"
    by (simp_all add: flag_in_def flag_defs)
  have e: "enabled_capabilities (config (read_info_normalize 7 ?edge)) USB = Some 7"
    by (simp add: normalize_fields set_usb_enabled_Some [OF s a] usb_mask_def i)
  have u: "supported_capabilities (read_info_normalize 7 ?edge) USB = Some 3"
    by (simp add: normalize_fields set_usb_enabled_Some [OF s a]) (simp add: flag_defs)
  have c: "\<not> cap_subset 7 3"
    by (simp add: cap_subset_def)
  have w: "\<not> enabled_within (read_info_normalize 7 ?edge) USB"
    by (simp add: enabled_within_def e u c)
  have b: "enabled_capabilities (config ?nfc) USB = None"
    by (simp add: reported_info_def)
  have "enabled_capabilities (config (read_info_normalize 7 ?nfc)) NFC = Some 2"
    and "supported_capabilities (read_info_normalize 7 ?nfc) NFC = Some 1"
    by (simp_all add: read_info_normalize_def strip_nfc_NFC nfc_excluded_def set_nfc_enabled_def
          has_transport_def)
       (simp_all add: reported_info_def set_usb_enabled_def has_transport_def Let_def set_fips_def
          flag_defs)
  then have n: "\<not> enabled_within (read_info_normalize 7 ?nfc) NFC"
    by (simp add: enabled_within_def cap_subset_def)
  show ?thesis
    using a e u c w b n by simp
qed

subsection \<open>Naming\<close>

lemma fido_only_empty: "fido_only 0"
  by (simp add: fido_only_def)

text \<open>
  C10. With no key-type hint, a \<^verbatim>\<open>DeviceInfo\<close> with no serial whose supported USB
  capabilities have no bit outside U2F and FIDO2 (the empty set included) is classified
  as the Security Key: \<^verbatim>\<open>get_name\<close> returns what it returns for the hint SKY, one of
  the three Security Key names.
\<close>

theorem fido_only_without_serial_is_sky:
  assumes "supported_capabilities info USB = Some usb_supported"
    and "serial info = None"
    and "fido_only usb_supported"
  shows "get_name_key_type info usb_supported None = SKY
       \<and> get_name info None = get_name info (Some SKY)
       \<and> get_name info None =
           Inr (if has_transport info NFC then ''Security Key NFC''
                else if \<not> flag_in CAPABILITY_FIDO2 usb_supported then ''FIDO U2F Security Key''
                else ''Security Key by Yubico'')
       \<and> fido_only 0"
  using assms by (simp add: get_name_def get_name_key_type_def Let_def fido_only_empty)

theorem fido_only_without_serial_witness:
  "supported_capabilities (raw_info (4, 0, 0) USB_A_KEYCHAIN [USB \<mapsto> 0]) USB = Some 0
   \<and> serial (raw_info (4, 0, 0) USB_A_KEYCHAIN [USB \<mapsto> 0]) = None
   \<and> fido_only 0
   \<and> get_name_key_type (raw_info (4, 0, 0) USB_A_KEYCHAIN [USB \<mapsto> 0]) 0 None = SKY
   \<and> get_name (raw_info (4, 0, 0) USB_A_KEYCHAIN [USB \<mapsto> 0]) None
        = Inr ''FIDO U2F Security Key''"
proof -
  let ?w = "raw_info (4, 0, 0) USB_A_KEYCHAIN [USB \<mapsto> 0]"
  have a: "supported_capabilities ?w USB = Some 0" and b: "serial ?w = None"
    and n: "\<not> has_transport ?w NFC"
    by (simp_all add: raw_info_def has_transport_def)
  have f: "\<not> flag_in CAPABILITY_FIDO2 0"
    by (simp add: flag_in_def CAPABILITY_FIDO2_def)
  note t = fido_only_without_serial_is_sky [OF a b fido_only_empty]
  from t have k: "get_name_key_type ?w 0 None = SKY"
    by blast
  from t have "get_name ?w None =
      Inr (if has_transport ?w NFC then ''Security Key NFC''
           else if \<not> flag_in CAPABILITY_FIDO2 0 then ''FIDO U2F Security Key''
           else ''Security Key by Yubico'')"
    by blast
  with n f have g: "get_name ?w None = Inr ''FIDO U2F Security Key''"
    by simp
  show ?thesis
    using a b k g fido_only_empty by simp
qed

lemma major_of_5_1_0: "(5, 1, 0) \<le> (v :: Version) \<Longrightarrow> 5 \<le> fst v"
  by (cases v) (auto simp add: less_eq_prod_def)

lemma is_preview_5_2_0: "is_preview (5, 2, 0)"
  by (simp add: is_preview_def PREVIEW_RANGES_def)

text \<open>
  C3, amended. For a \<^verbatim>\<open>DeviceInfo\<close> with form factor USB-A keychain, no NFC entry, the
  FIPS and Security Key flags false, that \<^verbatim>\<open>get_name\<close> treats as a YK4 (by the hint
  or by its own classification): at version (5,2,0), which lies in the preview range
  from 5.2.0 to 5.2.3, the name is "YubiKey Preview"; at every version from 5.1.0 on
  that is in no preview range, the name is "YubiKey 5A".
\<close>

theorem get_name_usb_a_keychain:
  assumes "supported_capabilities info USB = Some usb_supported"
    and "form_factor info = USB_A_KEYCHAIN"
    and "\<not> has_transport info NFC"
    and "\<not> is_fips info"
    and "\<not> is_sky info"
    and "get_name_key_type info usb_supported key_type = YK4"
  shows "(version info = (5, 2, 0) \<longrightarrow> get_name info key_type = Inr ''YubiKey Preview'')
       \<and> ((5, 1, 0) \<le> version info \<and> \<not> is_preview (version info) \<longrightarrow>
            get_name info key_type = Inr ''YubiKey 5A'')"
proof (intro conjI impI)
  assume v: "version info = (5, 2, 0)"
  show "get_name info key_type = Inr ''YubiKey Preview''"
    using assms(1,6) is_preview_5_2_0 by (simp add: get_name_def Let_def v)
next
  assume v: "(5, 1, 0) \<le> version info \<and> \<not> is_preview (version info)"
  then have m: "5 \<le> fst (version info)"
    using major_of_5_1_0 by blast
  have parts: "get_name_parts info usb_supported = [''YubiKey'', ''5'', ''A'']"
    using assms(2-5) by (simp add: get_name_parts_def)
  show "get_name info key_type = Inr ''YubiKey 5A''"
    using assms(1,6) v m by (simp add: get_name_def Let_def parts)
qed

theorem get_name_usb_a_keychain_witness:
  "get_name (reported_info (5, 2, 0) USB_A_KEYCHAIN [USB \<mapsto> 571] [USB \<mapsto> 571]) None
     = Inr ''YubiKey Preview''
   \<and> (5, 1, 0) \<le> ((5, 2, 3) :: Version) \<and> \<not> is_preview (5, 2, 3)
   \<and> get_name (reported_info (5, 2, 3) USB_A_KEYCHAIN [USB \<mapsto> 571] [USB \<mapsto> 571]) None
     = Inr ''YubiKey 5A''"
  using get_name_usb_a_keychain
      [of "reported_info (5, 2, 0) USB_A_KEYCHAIN [USB \<mapsto> 571] [USB \<mapsto> 571]" 571 None]
    get_name_usb_a_keychain
      [of "reported_info (5, 2, 3) USB_A_KEYCHAIN [USB \<mapsto> 571] [USB \<mapsto> 571]" 571 None]
  by (simp add: reported_info_def get_name_key_type_def has_transport_def is_preview_def
        PREVIEW_RANGES_def)

text \<open>
  The claim as stated fails: at version (5,2,0) the name is "YubiKey Preview", with
  or without the hint YK4.
\<close>

theorem get_name_5_2_0_counterexample:
  "get_name (reported_info (5, 2, 0) USB_A_KEYCHAIN [USB \<mapsto> 571] [USB \<mapsto> 571]) None
     = Inr ''YubiKey Preview''
   \<and> get_name (reported_info (5, 2, 0) USB_A_KEYCHAIN [USB \<mapsto> 571] [USB \<mapsto> 571]) (Some YK4)
     = Inr ''YubiKey Preview''
   \<and> get_name (reported_info (5, 2, 0) USB_A_KEYCHAIN [USB \<mapsto> 571] [USB \<mapsto> 571]) None
     \<noteq> Inr ''YubiKey 5A''"
  by (simp add: reported_info_def get_name_def get_name_key_type_def Let_def is_preview_5_2_0)

subsection \<open>The CCID fallback\<close>

lemmas aid_defs = AID_PIV_def AID_FIDO_def AID_OATH_def AID_OPENPGP_def AID_U2F_YUBICO_def

lemma read_info_ccid_synthesize_supported:
  assumes "read_info_ccid_synthesize conn interfaces version0 s = (Inr info, s')"
  shows "supported_capabilities info NFC = supported_capabilities info USB
       \<and> supported_capabilities info USB \<noteq> None"
  using assms
  by (auto simp add: read_info_ccid_synthesize_def Let_def split: prod.splits sum.splits if_splits)

text \<open>
  C9. Whenever the CCID resolver falls back (the management session raises
  \<^verbatim>\<open>ApplicationNotAvailableError\<close>, or it is opened and \<^verbatim>\<open>read_device_info\<close> raises
  \<^verbatim>\<open>NotSupportedError\<close> or \<^verbatim>\<open>ApplicationNotAvailableError\<close>) and returns a
  \<^verbatim>\<open>DeviceInfo\<close>, that record has a supported entry for USB and the same entry for NFC.
\<close>

theorem ccid_fallback_nfc_equals_usb:
  assumes "fst (ManagementSession conn s) = Inl ApplicationNotAvailableError
         \<or> (\<exists>v. fst (ManagementSession conn s) = Inr v
              \<and> fst (read_device_info conn (snd (ManagementSession conn s)))
                  \<in> {Inl NotSupportedError, Inl ApplicationNotAvailableError})"
    and "fst (read_info_ccid conn key_type interfaces s) = Inr info"
  shows "supported_capabilities info NFC = supported_capabilities info USB
       \<and> supported_capabilities info USB \<noteq> None"
proof -
  obtain s' where r: "read_info_ccid conn key_type interfaces s = (Inr info, s')"
    using assms(2) by (cases "read_info_ccid conn key_type interfaces s") simp
  have "\<exists>v0 s0. read_info_ccid_synthesize conn interfaces v0 s0 = (Inr info, s')"
    using assms(1) r
    by (auto simp add: read_info_ccid_def split: prod.splits sum.splits if_splits)
  then obtain v0 s0 where "read_info_ccid_synthesize conn interfaces v0 s0 = (Inr info, s')"
    by blast
  then show ?thesis
    by (rule read_info_ccid_synthesize_supported)
qed

lemma read_info_ccid_neo:
  "read_info_ccid neo_conn (Some NEO) 7 () =
     (Inr ((raw_info (3, 4, 0) UNKNOWN [USB \<mapsto> 19, NFC \<mapsto> 19])\<lparr>serial := Some 5417283\<rparr>), ())"
  by (simp add: read_info_ccid_def neo_conn_def read_info_ccid_synthesize_def otp_read_data_def
        SCAN_APPLETS_def aid_defs Let_def flag_in_def flag_defs raw_info_def)

theorem ccid_fallback_nfc_equals_usb_witness:
  "fst (ManagementSession neo_conn ()) = Inl ApplicationNotAvailableError
   \<and> fst (read_info_ccid neo_conn (Some NEO) 7 ())
        = Inr ((raw_info (3, 4, 0) UNKNOWN [USB \<mapsto> 19, NFC \<mapsto> 19])\<lparr>serial := Some 5417283\<rparr>)
   \<and> supported_capabilities
        ((raw_info (3, 4, 0) UNKNOWN [USB \<mapsto> 19, NFC \<mapsto> 19])\<lparr>serial := Some 5417283\<rparr>) NFC
        = Some 19
   \<and> supported_capabilities
        ((raw_info (3, 4, 0) UNKNOWN [USB \<mapsto> 19, NFC \<mapsto> 19])\<lparr>serial := Some 5417283\<rparr>) USB
        = Some 19"
proof -
  let ?info = "(raw_info (3, 4, 0) UNKNOWN [USB \<mapsto> 19, NFC \<mapsto> 19])\<lparr>serial := Some 5417283\<rparr>"
  have m: "fst (ManagementSession neo_conn ()) = Inl ApplicationNotAvailableError"
    by (simp add: neo_conn_def)
  have r: "fst (read_info_ccid neo_conn (Some NEO) 7 ()) = Inr ?info"
    by (simp add: read_info_ccid_neo)
  have u: "supported_capabilities ?info USB = Some 19"
    by (simp add: raw_info_def)
  have "supported_capabilities ?info NFC = supported_capabilities ?info USB
        \<and> supported_capabilities ?info USB \<noteq> None"
    using ccid_fallback_nfc_equals_usb [of neo_conn "()" "Some NEO" 7 ?info] m r by simp
  then show ?thesis
    using m r u by simp
qed

subsection \<open>The reclaim-retry loop\<close>

lemma otp_session_attempt_Some: "otp_session_attempt conn (Some v) s = (Session v, s)"
  by (simp add: otp_session_attempt_def)

text \<open>The two ways in which the resolver gets to the serial read.\<close>

lemma otp_entry_management_unavailable:
  assumes "ManagementSession conn s0 = (Inl ApplicationNotAvailableError, s1)"
    and "YubiOtpSession conn s1 = (Inr v, s2)"
  shows "otp_open conn s0 = (Inr (Some v), s2)"
    and "otp_session_attempt conn (Some v) s2 = (Session v, s2)"
  using assms by (simp_all add: otp_open_def otp_session_attempt_def)

lemma otp_entry_info_not_supported:
  assumes "ManagementSession conn s0 = (Inr mgmt_version, s1)"
    and "read_device_info conn s1 = (Inl NotSupportedError, s1')"
    and "YubiOtpSession conn s1' = (Inr v, s2)"
  shows "otp_open conn s0 = (Inr None, s1)"
    and "otp_session_attempt conn None s1 = (Session v, s2)"
  using assms by (simp_all add: otp_open_def otp_session_attempt_def)

lemma otp_loop_reclaim:
  assumes "otp_session_attempt conn otp0 sL = (Session v, s2)"
    and "get_serial conn s2 = (Inl CommandRejectedError, s3)"
    and "get_serial conn (sleep conn s3) = (Inl CommandRejectedError, s4)"
    and "get_serial conn (sleep conn s4) = (Inl CommandRejectedError, s5)"
    and "get_serial conn (sleep conn s5) = (Inr n, s6)"
    and "interfaces \<noteq> USB_INTERFACE_OTP"
  shows "otp_loop conn interfaces (Suc (Suc (Suc (Suc k)))) otp0 sL = (Break v (Some n), s6)"
  using assms by (simp add: otp_session_attempt_Some)

text \<open>
  C7. Let the OTP resolver reach the serial read with an OTP session of version \<open>v\<close>
  (because the management applet is not available, or because its info command is not
  supported), and let the serial read raise \<^verbatim>\<open>CommandRejectedError\<close> three times, with
  a sleep after each, and return \<open>n\<close> the fourth time, the interfaces being other
  than the OTP interface alone. Then the loop is left by its \<^verbatim>\<open>break\<close> in the state
  that the fourth read leaves, a bound of four iterations gives the same as the bound of
  eight, and the resolver returns the synthesized \<^verbatim>\<open>DeviceInfo\<close> with version \<open>v\<close>
  and serial \<open>n\<close>.
\<close>

theorem otp_reclaim_retry:
  assumes "otp_open conn s0 = (Inr otp0, sL)"
    and "otp_session_attempt conn otp0 sL = (Session v, s2)"
    and "get_serial conn s2 = (Inl CommandRejectedError, s3)"
    and "get_serial conn (sleep conn s3) = (Inl CommandRejectedError, s4)"
    and "get_serial conn (sleep conn s4) = (Inl CommandRejectedError, s5)"
    and "get_serial conn (sleep conn s5) = (Inr n, s6)"
    and "interfaces \<noteq> USB_INTERFACE_OTP"
  shows "otp_loop conn interfaces 8 otp0 sL = (Break v (Some n), s6)
       \<and> otp_loop conn interfaces 4 otp0 sL = (Break v (Some n), s6)
       \<and> read_info_otp conn key_type interfaces s0 =
           (Inr (read_info_otp_synthesize key_type interfaces v (Some n)), s6)
       \<and> serial (read_info_otp_synthesize key_type interfaces v (Some n)) = Some n
       \<and> version (read_info_otp_synthesize key_type interfaces v (Some n)) = v"
proof -
  have l8: "otp_loop conn interfaces 8 otp0 sL = (Break v (Some n), s6)"
    using otp_loop_reclaim [OF assms(2-7), of 4] by (simp add: eval_nat_numeral)
  have l4: "otp_loop conn interfaces 4 otp0 sL = (Break v (Some n), s6)"
    using otp_loop_reclaim [OF assms(2-7), of 0] by (simp add: eval_nat_numeral)
  have r: "read_info_otp conn key_type interfaces s0 =
             (Inr (read_info_otp_synthesize key_type interfaces v (Some n)), s6)"
    by (simp add: read_info_otp_def assms(1) l8)
  have s: "serial (read_info_otp_synthesize key_type interfaces v (Some n)) = Some n"
    "version (read_info_otp_synthesize key_type interfaces v (Some n)) = v"
    by (simp_all add: read_info_otp_synthesize_def Let_def)
  show ?thesis
    using l8 l4 r s by simp
qed

text \<open>
  On the connection \<open>reclaim_conn\<close>, with the OTP and FIDO interfaces active: four
  serial reads and three sleeps, then the serial of the fourth read.
\<close>

theorem otp_reclaim_retry_witness:
  "(3 :: USB_INTERFACE) \<noteq> USB_INTERFACE_OTP
   \<and> otp_loop reclaim_conn 3 8 (Some (4, 3, 1)) (0, 0) = (Break (4, 3, 1) (Some 7654321), (4, 3))
   \<and> read_info_otp reclaim_conn (Some YK4) 3 (0, 0) =
       (Inr (read_info_otp_synthesize (Some YK4) 3 (4, 3, 1) (Some 7654321)), (4, 3))
   \<and> serial (read_info_otp_synthesize (Some YK4) 3 (4, 3, 1) (Some 7654321)) = Some 7654321"
  using otp_reclaim_retry [of reclaim_conn "(0, 0)" "Some (4, 3, 1)" "(0, 0)" "(4, 3, 1)" "(0, 0)"
      "(1, 0)" "(2, 1)" "(3, 2)" 7654321 "(4, 3)" 3 "Some YK4"]
  by (simp add: reclaim_conn_def otp_open_def otp_session_attempt_def USB_INTERFACE_OTP_def)

subsection \<open>Errors of the management session\<close>







text \<open>\<^verbatim>\<open>read_info\<close> for each kind of connection.\<close>

lemma normalize_result_simps [simp]:
  "normalize_result i (Inl e, s1) = (Inl e, s1)"
  "normalize_result i (Inr info, s1) = (Inr (read_info_normalize i info), s1)"
  by (simp_all add: normalize_result_def)




text \<open>What \<^verbatim>\<open>read_info\<close> returns has been normalized.\<close>

lemma read_info_Inr_normalized:
  assumes "read_info conn pid kind s = (Inr info, s1)"
  shows "\<exists>raw. info = read_info_normalize (pid_interfaces pid) raw"
  using assms
  by (cases pid) (auto simp add: read_info_def pid_interfaces_def split: prod.splits sum.splits)













subsection \<open>The capability query of the CCID driver\<close>

lemma send_apdu_recording:
  "send_apdu (recording transmit) cl ins p1 p2 data (log, c) =
     (case transmit ([cl, ins, p1, p2, int (length data)] @ data) c of
        ((resp, sw1, sw2), c1) \<Rightarrow>
          ((resp, push_bit 8 sw1 OR sw2),
           (log @ [[cl, ins, p1, p2, int (length data)] @ data], c1)))"
  by (simp add: send_apdu_def recording_def Let_def split: prod.splits)

text \<open>
  C8, amended. At version 4.2.4 \<^verbatim>\<open>read_capabilities\<close> returns the fixed bytes
  03 01 01 3F and transmits nothing. At every other version it selects the management
  applet; the capability query is sent, and its reply returned, only if that selection
  is answered with the status word 9000; otherwise the result is the empty byte string
  and the selection is the only command sent.
\<close>

theorem read_capabilities_paths:
  "(version0 = [4, 2, 4] \<longrightarrow>
      read_capabilities (recording transmit) version0 (log, c) = ([3, 1, 1, 63], (log, c)))
 \<and> (version0 \<noteq> [4, 2, 4] \<longrightarrow>
      (case transmit select_manager c of
         ((r, sw1, sw2), c1) \<Rightarrow>
           if push_bit 8 sw1 OR sw2 = SW_OK then
             (case transmit capabilities_query c1 of
                ((capa, sw1', sw2'), c2) \<Rightarrow>
                  read_capabilities (recording transmit) version0 (log, c)
                    = (capa, (log @ [select_manager, capabilities_query], c2)))
           else
             read_capabilities (recording transmit) version0 (log, c)
               = ([], (log @ [select_manager], c1))))"
  by (simp add: read_capabilities_def send_apdu_recording select_manager_def
        capabilities_query_def MGR_AID_def Let_def split: prod.splits)

theorem read_capabilities_paths_witness:
  "read_capabilities (recording yk4_card) [4, 2, 4] ([], ()) = ([3, 1, 1, 63], ([], ()))
 \<and> read_capabilities (recording yk4_card) [4, 3, 1] ([], ())
     = ([3, 1, 1, 63],
        ([[0, 164, 4, 0, 8, 160, 0, 0, 5, 39, 71, 17, 23], [0, 29, 0, 0, 0]], ()))
 \<and> read_capabilities (recording no_manager_card) [4, 3, 1] ([], ())
     = ([], ([[0, 164, 4, 0, 8, 160, 0, 0, 5, 39, 71, 17, 23]], ()))"
  using read_capabilities_paths [of "[4, 2, 4]" yk4_card "[]" "()"]
    read_capabilities_paths [of "[4, 3, 1]" yk4_card "[]" "()"]
    read_capabilities_paths [of "[4, 3, 1]" no_manager_card "[]" "()"]
  by (simp add: yk4_card_def no_manager_card_def select_manager_def capabilities_query_def
        MGR_AID_def INS_SELECT_def INS_YK4_CAPABILITIES_def SW_OK_def)

text \<open>
  The claim as stated fails on a card without the management applet, at a version other
  than 4.2.4: the selection is answered 6A82, and the capability query (instruction
  1D) is never sent.
\<close>

theorem read_capabilities_no_manager_counterexample:
  "read_capabilities (recording no_manager_card) [4, 2, 3] ([], ())
     = ([], ([[0, 164, 4, 0, 8, 160, 0, 0, 5, 39, 71, 17, 23]], ()))
   \<and> capabilities_query \<notin> set (fst (snd
        (read_capabilities (recording no_manager_card) [4, 2, 3] ([], ()))))"
  by (simp add: read_capabilities_def send_apdu_recording no_manager_card_def MGR_AID_def
        INS_SELECT_def SW_OK_def Let_def capabilities_query_def INS_YK4_CAPABILITIES_def)

end
